theory Spec2Isabelle
  imports Complex_Main
begin

section \<open>The ScannerTrigger demo script (demo.py)\<close>

text \<open>
  The script is one flat sequence of calls into PsychoPy, the scannertrigger library,
  numpy and matplotlib.  It is modelled as a function \<open>run\<close> from a \<open>world\<close>
  (what the user, the trigger device, the keyboard and the clock answer during one run) to
  the list of calls the script makes, in order, and the way it ends.  Exceptions are values
  of \<open>exn\<close>; a run whose polling loop never ends has no result (\<open>None\<close>).
  Time stamps and the statistics are modelled over the real numbers.
\<close>

subsection \<open>Values, exceptions, calls\<close>

text \<open>
  \<open>exn\<close>: an instance of Python's \<open>Exception\<close>, by class name and message (\<open>str(e)\<close> is the
  message).  Both handlers of the script read \<open>except Exception as e\<close>.
\<close>

datatype exn = Exn (cls: string) (msg: string)

definition ValueError :: "string \<Rightarrow> exn" where
  "ValueError m = Exn ''ValueError'' m"

text \<open>The values of the device settings: strings, integers, booleans, the library's
  constant \<open>s.RISING\<close> and a nested dictionary.  A dictionary is an association list in
  the order the source writes its keys.\<close>

datatype setting =
    SStr string
  | SInt int
  | SBool bool
  | RISING
  | SDict "(string \<times> setting) list"

type_synonym settings = "(string \<times> setting) list"

text \<open>The entries of the dialog's dictionary: a list of choices, or a number.\<close>

datatype dlg_field = Choices "string list" | Number int

text \<open>A numpy float: a number, or \<open>nan\<close> (the mean and the standard deviation of an
  empty array).\<close>

datatype npfloat = Num real | NaN

datatype stim = stimScanner | stimTrigger

text \<open>The calls the script makes, with the arguments that matter.\<close>

datatype event =
    DlgFromDict "(string \<times> dlg_field) list"
  | CoreQuit
  | Window
  | TextStim string
  | TriggerCreate string settings
  | TriggerOpen
  | LoggingFlush
  | Print string
  | Draw stim
  | WinFlip
  | WaitForTrigger int
  | ClockReset
  | GetKeys bool
  | GetTime real
  | GetTrigger bool
  | SetText int real real int
  | LoggingData string npfloat
  | PltFigure
  | PltHist "real list" int
  | PltTitle npfloat npfloat
  | PltXlabel string
  | PltYlabel string
  | PltShow
  | TriggerClose
  | WinClose

text \<open>How a run ends: \<open>core.quit()\<close> was called, or an exception reached the top level.\<close>

datatype outcome = Exited | Uncaught exn

subsection \<open>The dialog (lines 56 to 68)\<close>

definition expName :: string where
  "expName = ''Demo ScannerTrigger''"

definition expInfo :: "(string \<times> dlg_field) list" where
  "expInfo =
     [(''triggering'', Choices [''keyboard'', ''serial'', ''parallel'', ''cedrus'',
                               ''launchscan'', ''dummy'']),
      (''skip scans'', Number 0)]"

subsection \<open>The device settings (lines 126 to 173)\<close>

definition MR_settings :: "string \<Rightarrow> int \<Rightarrow> exn + settings" where
  "MR_settings portType dummyScans =
     (if portType = ''keyboard'' then
        Inr [(''keyList'', SStr ''t''), (''maxWait'', SInt 9999999)]
      else if portType = ''dummy'' then
        Inr [(''tr'', SInt 1)]
      else if portType = ''serial'' then
        Inr [(''port'', SStr ''COM5''), (''baudrate'', SInt 9600), (''sync'', SStr ''5'')]
      else if portType = ''parallel'' then
        Inr [(''address'', SStr ''0x0378''), (''pin'', SInt 10), (''edge'', RISING)]
      else if portType = ''cedrus'' then
        Inr [(''devicenr'', SInt 0), (''sync'', SInt 4)]
      else if portType = ''launchscan'' then
        Inr [(''wait_msg'', SStr ''Waiting for scanner''),
             (''esc_key'', SStr ''escape''),
             (''log'', SBool True),
             (''wait_timeout'', SInt 100),
             (''settings'', SDict [(''TR'', SInt 1), (''volumes'', SInt 100),
                                  (''sync'', SStr ''t''), (''skip'', SInt dummyScans),
                                  (''sound'', SBool False)])]
      else Inl (ValueError ''The selected Port type does not exist!''))"

text \<open>A device-type string is recognised when the dispatch selects settings for it.\<close>

definition recognised :: "string \<Rightarrow> bool" where
  "recognised portType = (case MR_settings portType 0 of Inl _ \<Rightarrow> False | Inr _ \<Rightarrow> True)"

subsection \<open>numpy on the delta array (lines 253 to 261)\<close>

definition np_mean :: "real list \<Rightarrow> npfloat" where
  "np_mean xs = (if xs = [] then NaN else Num (sum_list xs / real (length xs)))"

definition np_std :: "real list \<Rightarrow> npfloat" where
  "np_std xs =
     (if xs = [] then NaN
      else Num (sqrt (sum_list (map (\<lambda>x. (x - sum_list xs / real (length xs))\<^sup>2) xs)
                      / real (length xs))))"

definition np_max :: "real list \<Rightarrow> exn + real" where
  "np_max xs =
     (if xs = [] then
        Inl (ValueError ''zero-size array to reduction operation maximum which has no identity'')
      else Inr (fold max (tl xs) (hd xs)))"

definition np_min :: "real list \<Rightarrow> exn + real" where
  "np_min xs =
     (if xs = [] then
        Inl (ValueError ''zero-size array to reduction operation minimum which has no identity'')
      else Inr (fold min (tl xs) (hd xs)))"

text \<open>\<open>int(np.ceil(4 * n ** (1.0/3)))\<close>, the number of bins.\<close>

definition binWidth :: "nat \<Rightarrow> int" where
  "binWidth n = \<lceil>4 * root 3 (real n)\<rceil>"

subsection \<open>The conversion of the skip count (line 124)\<close>

text \<open>
  The value the dialog leaves under \<open>skip scans\<close>: an integer (the field starts as 0), a
  float, or the text the user typed.  \<open>py_int\<close> is Python's \<open>int\<close> on such a value, as
  Python 3 reads it: an integer as it is; a float cut towards zero; a text with optional
  white space around an optional sign and decimal digits, where single underscores may
  stand between digits; any other text raises \<open>ValueError\<close>.  Texts are ASCII, floats are
  reals, and the message quotes the text between two apostrophes.
\<close>

datatype py_value = PyInt int | PyFloat real | PyStr string

definition is_space :: "char \<Rightarrow> bool" where
  "is_space c = (c \<in> set [CHR 0x09, CHR 0x0A, CHR 0x0B, CHR 0x0C, CHR 0x0D,
                           CHR 0x1C, CHR 0x1D, CHR 0x1E, CHR 0x1F, CHR '' ''])"

definition is_digit :: "char \<Rightarrow> bool" where
  "is_digit c = (c \<in> set ''0123456789'')"

definition digit_value :: "char \<Rightarrow> nat" where
  "digit_value c = of_char c - 48"

text \<open>Digits, with single underscores between digits only.\<close>

fun well_grouped :: "string \<Rightarrow> bool" where
  "well_grouped [] = False"
| "well_grouped [c] = is_digit c"
| "well_grouped (c # d # cs) =
     (is_digit c \<and> (if d = CHR ''_'' then well_grouped cs else well_grouped (d # cs)))"

definition strip :: "string \<Rightarrow> string" where
  "strip s = dropWhile is_space (rev (dropWhile is_space (rev s)))"

definition decimal :: "string \<Rightarrow> nat" where
  "decimal s = fold (\<lambda>c a. 10 * a + digit_value c) (filter is_digit s) 0"

definition py_int :: "py_value \<Rightarrow> exn + int" where
  "py_int x =
     (case x of
        PyInt n \<Rightarrow> Inr n
      | PyFloat r \<Rightarrow> Inr (if 0 \<le> r then \<lfloor>r\<rfloor> else \<lceil>r\<rceil>)
      | PyStr s \<Rightarrow>
          (let t = strip s;
               body = (if t \<noteq> [] \<and> (hd t = CHR ''-'' \<or> hd t = CHR ''+'') then tl t else t)
           in if well_grouped body
              then Inr (if t \<noteq> [] \<and> hd t = CHR ''-'' then - int (decimal body)
                        else int (decimal body))
              else Inl (ValueError (''invalid literal for int() with base 10: ''
                                     @ [CHR 0x27] @ s @ [CHR 0x27]))))"

subsection \<open>The world of one run\<close>

text \<open>The trigger object \<open>st\<close>, as far as the script reads it.  Its attributes change
  only in the calls \<open>waitForTrigger\<close> and \<open>getTrigger\<close>.\<close>

record trigger_obj =
  triggerTime :: real
  triggerCnt :: int

text \<open>
  What the script meets at the \<open>i\<close>-th evaluation of the loop condition and in the
  iteration that follows: whether \<open>event.getKeys(keyList=['escape'])\<close> returns a key,
  what \<open>timeOutClock.getTime()\<close> reads, what \<open>st.getTrigger()\<close> returns and the state of
  \<open>st\<close> after that call.
\<close>

record poll =
  escape :: bool
  elapsed :: real
  new_trigger :: bool
  st_after :: trigger_obj

text \<open>
  \<open>triggering\<close> and \<open>skip_value\<close> are what the dialog leaves in \<open>expInfo\<close>.
  \<open>create_raises\<close>, \<open>open_raises\<close> and \<open>waitForTrigger\<close> are the outcomes of the three
  guarded library calls; \<open>st_waited\<close> is \<open>st\<close> when \<open>waitForTrigger\<close> has returned.
\<close>

record world =
  dlg_OK :: bool
  triggering :: string
  skip_value :: py_value
  create_raises :: "exn option"
  open_raises :: "exn option"
  waitForTrigger :: "exn + bool"
  st_waited :: trigger_obj
  polls :: "nat \<Rightarrow> poll"

text \<open>Line 124, \<open>int(expInfo['skip scans'])\<close>: the integer, or the exception \<open>int\<close>
  raises.\<close>

definition skip_scans :: "world \<Rightarrow> exn + int" where
  "skip_scans w = py_int (skip_value w)"

subsection \<open>The polling loop (lines 231 to 247)\<close>

text \<open>The variables of the loop, and the calls made so far.\<close>

record vars =
  triggered :: bool
  prevTriggerTime :: real
  deltaTriggerTimeArray :: "real list"
  st :: trigger_obj
  calls :: "event list"

definition loop_body :: "int \<Rightarrow> poll \<Rightarrow> vars \<Rightarrow> vars" where
  "loop_body dummyScans p v =
     (let v1 =
        (if triggered v then
           (let deltaTriggerTime = triggerTime (st v) - prevTriggerTime v in
            v\<lparr>deltaTriggerTimeArray := deltaTriggerTimeArray v @ [deltaTriggerTime],
              prevTriggerTime := triggerTime (st v),
              calls := calls v @
                [LoggingFlush,
                 SetText (triggerCnt (st v)) (triggerTime (st v)) deltaTriggerTime dummyScans,
                 Draw stimTrigger, WinFlip]\<rparr>)
         else v)
      in v1\<lparr>triggered := new_trigger p, st := st_after p,
            calls := calls v1 @ [GetTrigger (new_trigger p)]\<rparr>)"

text \<open>The condition \<open>not event.getKeys(...) and timeOutClock.getTime() < 100\<close> reads the
  clock only when no escape key was found.\<close>

definition condition_calls :: "poll \<Rightarrow> event list" where
  "condition_calls p = (if escape p then [GetKeys True] else [GetKeys False, GetTime (elapsed p)])"

definition checked :: "poll \<Rightarrow> vars \<Rightarrow> vars" where
  "checked p v = v\<lparr>calls := calls v @ condition_calls p\<rparr>"

partial_function (option) polling_loop :: "(nat \<Rightarrow> poll) \<Rightarrow> int \<Rightarrow> nat \<Rightarrow> vars \<Rightarrow> vars option" where
  "polling_loop ps dummyScans i v =
     (if \<not> escape (ps i) \<and> elapsed (ps i) < 100
      then polling_loop ps dummyScans (Suc i) (loop_body dummyScans (ps i) (checked (ps i) v))
      else Some (checked (ps i) v))"

subsection \<open>The data output (lines 253 to 272)\<close>

definition data_output :: "real list \<Rightarrow> event list \<times> outcome" where
  "data_output arr =
     (let delta = drop 1 arr;
          logged = [LoggingData ''Mean deltaTime'' (np_mean delta),
                    LoggingData ''Stdev deltaTime'' (np_std delta)]
      in case np_max delta of
           Inl e \<Rightarrow> (logged, Uncaught e)
         | Inr mx \<Rightarrow>
            (case np_min delta of
               Inl e \<Rightarrow> (logged @ [LoggingData ''Max deltaTime'' (Num mx)], Uncaught e)
             | Inr mn \<Rightarrow>
                (logged @
                 [LoggingData ''Max deltaTime'' (Num mx),
                  LoggingData ''Min deltaTime'' (Num mn),
                  LoggingFlush,
                  PltFigure,
                  PltHist delta (binWidth (length arr)),
                  PltTitle (np_mean delta) (np_std delta),
                  PltXlabel ''delta time'',
                  PltYlabel ''frequency'',
                  PltShow,
                  TriggerClose, WinClose, CoreQuit], Exited)))"

subsection \<open>The script\<close>

text \<open>Both \<open>except Exception as e\<close> blocks (lines 201 to 205 and 225 to 229).\<close>

definition except_handler :: "exn \<Rightarrow> event list" where
  "except_handler e = [LoggingFlush, Print (''ScannerTrigger Error: '' @ msg e), CoreQuit]"

text \<open>Lines 65 to 117, when the dialog was confirmed.\<close>

definition setup_calls :: "event list" where
  "setup_calls = [DlgFromDict expInfo, Window, TextStim ''Wait for trigger...'', TextStim ''TRIGGER'']"

text \<open>Lines 213 to 223.\<close>

definition wait_calls :: "int \<Rightarrow> event list" where
  "wait_calls dummyScans =
     [Draw stimScanner, WinFlip, Print ''Waiting for the Trigger'', WaitForTrigger dummyScans]"

text \<open>
  Lines 56 to 232: either the run is over (its calls and its outcome), or the loop starts,
  with \<open>dummyScans\<close> and the variables as line 232 leaves them.
\<close>

definition startup :: "world \<Rightarrow> (event list \<times> outcome) + (int \<times> vars)" where
  "startup w =
     (if \<not> dlg_OK w then Inl ([DlgFromDict expInfo, CoreQuit], Exited)
      else case skip_scans w of
        Inl e \<Rightarrow> Inl (setup_calls, Uncaught e)
      | Inr dummyScans \<Rightarrow>
        (case MR_settings (triggering w) dummyScans of
           Inl e \<Rightarrow> Inl (setup_calls, Uncaught e)
         | Inr cfg \<Rightarrow>
           (case create_raises w of
              Some e \<Rightarrow>
                Inl (setup_calls @ [TriggerCreate (triggering w) cfg] @ except_handler e, Exited)
            | None \<Rightarrow>
              (case open_raises w of
                 Some e \<Rightarrow>
                   Inl (setup_calls @ [TriggerCreate (triggering w) cfg, TriggerOpen]
                          @ except_handler e, Exited)
               | None \<Rightarrow>
                 (case waitForTrigger w of
                    Inl e \<Rightarrow>
                      Inl (setup_calls @ [TriggerCreate (triggering w) cfg, TriggerOpen]
                             @ wait_calls dummyScans @ except_handler e, Exited)
                  | Inr t \<Rightarrow>
                      Inr (dummyScans,
                           \<lparr>triggered = t,
                            prevTriggerTime = triggerTime (st_waited w),
                            deltaTriggerTimeArray = [],
                            st = st_waited w,
                            calls = setup_calls @ [TriggerCreate (triggering w) cfg, TriggerOpen]
                                      @ wait_calls dummyScans @ [LoggingFlush, ClockReset]\<rparr>))))))"

text \<open>The variables when the polling loop has ended, for a run that reaches the loop.\<close>

definition after_loop :: "world \<Rightarrow> vars option" where
  "after_loop w =
     (case startup w of
        Inl r \<Rightarrow> None
      | Inr (dummyScans, v) \<Rightarrow> polling_loop (polls w) dummyScans 0 v)"

definition run :: "world \<Rightarrow> (event list \<times> outcome) option" where
  "run w =
     (case startup w of
        Inl r \<Rightarrow> Some r
      | Inr (dummyScans, v) \<Rightarrow>
         (case polling_loop (polls w) dummyScans 0 v of
            None \<Rightarrow> None
          | Some v' \<Rightarrow>
              Some (calls v' @ fst (data_output (deltaTriggerTimeArray v')),
                    snd (data_output (deltaTriggerTimeArray v')))))"

subsection \<open>Notions the properties are stated with\<close>

text \<open>The loop condition fails: an escape key was found, or the clock has reached 100.\<close>

definition stops :: "poll \<Rightarrow> bool" where
  "stops p = (escape p \<or> 100 \<le> elapsed p)"

text \<open>\<open>k\<close> is the first evaluation of the loop condition that fails.\<close>

definition first_stop :: "(nat \<Rightarrow> poll) \<Rightarrow> nat \<Rightarrow> bool" where
  "first_stop ps k = (stops (ps k) \<and> (\<forall>j \<in> set [0..<k]. \<not> stops (ps j)))"

text \<open>The variables after the iterations \<open>i\<close>, ..., \<open>i + k - 1\<close> of the loop.\<close>

primrec iterations :: "(nat \<Rightarrow> poll) \<Rightarrow> int \<Rightarrow> nat \<Rightarrow> nat \<Rightarrow> vars \<Rightarrow> vars" where
  "iterations ps n i 0 v = v"
| "iterations ps n i (Suc k) v =
     loop_body n (ps (i + k)) (checked (ps (i + k)) (iterations ps n i k v))"

text \<open>The three polls of the loop: the keyboard, the clock, the trigger.\<close>

fun is_check :: "event \<Rightarrow> bool" where
  "is_check (GetKeys b) = True"
| "is_check (GetTime t) = True"
| "is_check (GetTrigger b) = True"
| "is_check e = False"

definition iteration_checks :: "poll \<Rightarrow> event list" where
  "iteration_checks p = [GetKeys False, GetTime (elapsed p), GetTrigger (new_trigger p)]"

text \<open>
  Modelled from the spec: which calls of the trigger library, the keyboard and the clock
  block.  Section 5 of the specification: the only blocking operation is the initial wait
  for the first trigger; the checks for a new trigger, for an escape keypress and of the
  elapsed time are non-blocking polls.  The code of these libraries is not part of the
  source.
\<close>

fun blocks :: "event \<Rightarrow> bool" where
  "blocks (WaitForTrigger m) = True"
| "blocks e = False"

text \<open>The calls an iteration of the loop can make, with \<open>n\<close> scans to skip.\<close>

fun loop_call :: "int \<Rightarrow> event \<Rightarrow> bool" where
  "loop_call n (GetKeys b) = True"
| "loop_call n (GetTime t) = True"
| "loop_call n (GetTrigger b) = True"
| "loop_call n LoggingFlush = True"
| "loop_call n (SetText c t d m) = (m = n)"
| "loop_call n (Draw s) = (s = stimTrigger)"
| "loop_call n WinFlip = True"
| "loop_call n e = False"

fun is_dialog :: "event \<Rightarrow> bool" where
  "is_dialog (DlgFromDict d) = True"
| "is_dialog e = False"

text \<open>
  The skip count a call is given: the argument \<open>skip\<close> of \<open>waitForTrigger\<close>, the last
  argument of the message on the screen, and the entry \<open>skip\<close> of the launchscan settings
  that \<open>ScannerTrigger.create\<close> receives.
\<close>

fun skip_used :: "event \<Rightarrow> int option" where
  "skip_used (WaitForTrigger m) = Some m"
| "skip_used (SetText c t d m) = Some m"
| "skip_used (TriggerCreate p cfg) =
     (case map_of cfg ''settings'' of
        Some (SDict d) \<Rightarrow> (case map_of d ''skip'' of Some (SInt m) \<Rightarrow> Some m | _ \<Rightarrow> None)
      | _ \<Rightarrow> None)"
| "skip_used e = None"

text \<open>The calls of lines 56 to 232.\<close>

definition startup_calls :: "world \<Rightarrow> event list" where
  "startup_calls w = (case startup w of Inl (cs, out) \<Rightarrow> cs | Inr (n, v) \<Rightarrow> calls v)"

text \<open>
  The times of the triggers that the first \<open>k\<close> iterations find when they start: the one
  \<open>waitForTrigger\<close> reported (\<open>t0\<close>, at \<open>time0\<close>), then those the \<open>getTrigger\<close> calls of
  the iterations before the last reported.  \<open>deltas prev ts\<close> are the differences of
  consecutive times, the first one taken from \<open>prev\<close>.
\<close>

definition accepted :: "bool \<Rightarrow> real \<Rightarrow> (nat \<Rightarrow> poll) \<Rightarrow> nat \<Rightarrow> real list" where
  "accepted t0 time0 ps k =
     (if k = 0 then []
      else (if t0 then [time0] else [])
           @ map (\<lambda>j. triggerTime (st_after (ps j))) (filter (\<lambda>j. new_trigger (ps j)) [0..<k - 1]))"

fun deltas :: "real \<Rightarrow> real list \<Rightarrow> real list" where
  "deltas prev [] = []"
| "deltas prev (t # ts) = (t - prev) # deltas t ts"

text \<open>The length of the delta array when the loop has ended, and the number of
  \<open>getTrigger\<close> calls that reported a trigger (the triggers seen after the first one, which
  \<open>waitForTrigger\<close> reports).\<close>

definition entries :: "world \<Rightarrow> nat option" where
  "entries w =
     (case after_loop w of None \<Rightarrow> None | Some v \<Rightarrow> Some (length (deltaTriggerTimeArray v)))"

definition later_triggers :: "world \<Rightarrow> nat option" where
  "later_triggers w =
     (case after_loop w of
        None \<Rightarrow> None
      | Some v \<Rightarrow> Some (length (filter (\<lambda>e. e = GetTrigger True) (calls v))))"

text \<open>The device settings as a table, one row for each device type.\<close>

definition lookup_table :: "int \<Rightarrow> (string \<times> settings) list" where
  "lookup_table dummyScans =
     [(''keyboard'', [(''keyList'', SStr ''t''), (''maxWait'', SInt 9999999)]),
      (''dummy'', [(''tr'', SInt 1)]),
      (''serial'', [(''port'', SStr ''COM5''), (''baudrate'', SInt 9600), (''sync'', SStr ''5'')]),
      (''parallel'', [(''address'', SStr ''0x0378''), (''pin'', SInt 10), (''edge'', RISING)]),
      (''cedrus'', [(''devicenr'', SInt 0), (''sync'', SInt 4)]),
      (''launchscan'',
        [(''wait_msg'', SStr ''Waiting for scanner''),
         (''esc_key'', SStr ''escape''),
         (''log'', SBool True),
         (''wait_timeout'', SInt 100),
         (''settings'', SDict [(''TR'', SInt 1), (''volumes'', SInt 100),
                              (''sync'', SStr ''t''), (''skip'', SInt dummyScans),
                              (''sound'', SBool False)])])]"

subsection \<open>Some worlds\<close>

definition escape_pressed :: poll where
  "escape_pressed =
     \<lparr>escape = True, elapsed = 0, new_trigger = False,
      st_after = \<lparr>triggerTime = 0, triggerCnt = 0\<rparr>\<rparr>"

text \<open>A poll at clock reading \<open>clock\<close> in which \<open>getTrigger\<close> reports a trigger, at time
  \<open>t\<close> with count \<open>c\<close>; and one in which it reports none.\<close>

definition pulse :: "real \<Rightarrow> real \<Rightarrow> int \<Rightarrow> poll" where
  "pulse clock t c =
     \<lparr>escape = False, elapsed = clock, new_trigger = True,
      st_after = \<lparr>triggerTime = t, triggerCnt = c\<rparr>\<rparr>"

definition idle :: "real \<Rightarrow> real \<Rightarrow> int \<Rightarrow> poll" where
  "idle clock t c =
     \<lparr>escape = False, elapsed = clock, new_trigger = False,
      st_after = \<lparr>triggerTime = t, triggerCnt = c\<rparr>\<rparr>"

text \<open>The polls of a list, then the escape key.\<close>

definition script :: "poll list \<Rightarrow> nat \<Rightarrow> poll" where
  "script ps i = (if i < length ps then ps ! i else escape_pressed)"

text \<open>The keyboard as device, no scan skipped, the first trigger at time 5.\<close>

definition keyboard_world :: "(nat \<Rightarrow> poll) \<Rightarrow> world" where
  "keyboard_world ps =
     \<lparr>dlg_OK = True, triggering = ''keyboard'', skip_value = PyInt 0,
      create_raises = None, open_raises = None, waitForTrigger = Inr True,
      st_waited = \<lparr>triggerTime = 5, triggerCnt = 0\<rparr>,
      polls = ps\<rparr>"

text \<open>The first trigger arrives, and the escape key is pressed before a second one.\<close>

definition early_escape :: world where
  "early_escape = keyboard_world (script [idle 1 5 0])"

text \<open>Triggers at 5, 7 and 9, then the escape key.\<close>

definition three_triggers :: world where
  "three_triggers = keyboard_world (script [pulse 2 7 1, pulse 4 9 2, idle 5 9 2])"

text \<open>\<open>waitForTrigger\<close> returns \<open>False\<close>, no trigger ever arrives, the clock runs out.\<close>

definition timed_out :: world where
  "timed_out =
     (keyboard_world (\<lambda>i. idle (50 * real i) 0 0))\<lparr>waitForTrigger := Inr False\<rparr>"

text \<open>No escape key and a clock that stands still.\<close>

definition frozen_clock :: "nat \<Rightarrow> poll" where
  "frozen_clock i = idle 1 0 0"

definition cancelled :: world where
  "cancelled = (keyboard_world (script []))\<lparr>dlg_OK := False\<rparr>"

definition mouse_selected :: world where
  "mouse_selected = (keyboard_world (script []))\<lparr>triggering := ''mouse''\<rparr>"

definition skip_not_a_number :: world where
  "skip_not_a_number = (keyboard_world (script []))\<lparr>skip_value := PyStr ''two''\<rparr>"

definition port_missing :: exn where
  "port_missing = Exn ''SerialException'' ''could not open port COM5''"

definition create_fails :: world where
  "create_fails =
     (keyboard_world (script []))\<lparr>triggering := ''serial'', create_raises := Some port_missing\<rparr>"

definition open_fails :: world where
  "open_fails =
     (keyboard_world (script []))\<lparr>triggering := ''serial'', open_raises := Some port_missing\<rparr>"

definition wait_fails :: world where
  "wait_fails =
     (keyboard_world (script []))
       \<lparr>skip_value := PyInt 2, waitForTrigger := Inl (Exn ''RuntimeError'' ''timeout'')\<rparr>"

text \<open>The calls of a run with the keyboard as device, up to the loop.\<close>

definition setup_keyboard :: "event list" where
  "setup_keyboard =
     [DlgFromDict expInfo, Window, TextStim ''Wait for trigger...'', TextStim ''TRIGGER'',
      TriggerCreate ''keyboard'' [(''keyList'', SStr ''t''), (''maxWait'', SInt 9999999)],
      TriggerOpen, Draw stimScanner, WinFlip, Print ''Waiting for the Trigger'',
      WaitForTrigger 0, LoggingFlush, ClockReset]"

text \<open>The launchscan helper; the user typed a 4 between two blanks, the first trigger
  arrives, and the escape key is pressed before a second one.\<close>

definition launchscan_world :: world where
  "launchscan_world =
     (keyboard_world (script [idle 1 5 0]))
       \<lparr>triggering := ''launchscan'', skip_value := PyStr '' 4 ''\<rparr>"

text \<open>The dialog leaves the float 2.7.\<close>

definition float_skip :: world where
  "float_skip = (keyboard_world (script [idle 1 5 0]))\<lparr>skip_value := PyFloat 2.7\<rparr>"

text \<open>Triggers at 5, 7, 9 and 11, then the escape key.\<close>

definition four_triggers :: world where
  "four_triggers =
     keyboard_world (script [pulse 2 7 1, pulse 4 9 2, pulse 6 11 3, idle 7 11 3])"

text \<open>The escape key is never pressed and the clock stands still.\<close>

definition never_ending :: world where
  "never_ending = keyboard_world frozen_clock"

section \<open>Properties\<close>

subsection \<open>Auxiliary facts about the loop\<close>

lemma checked_fields [simp]:
  "triggered (checked p v) = triggered v"
  "prevTriggerTime (checked p v) = prevTriggerTime v"
  "deltaTriggerTimeArray (checked p v) = deltaTriggerTimeArray v"
  "st (checked p v) = st v"
  "calls (checked p v) = calls v @ condition_calls p"
  by (simp_all add: checked_def)

lemma loop_body_fields [simp]:
  "triggered (loop_body n p v) = new_trigger p"
  "st (loop_body n p v) = st_after p"
  "deltaTriggerTimeArray (loop_body n p v) =
     deltaTriggerTimeArray v @ (if triggered v then [triggerTime (st v) - prevTriggerTime v] else [])"
  "prevTriggerTime (loop_body n p v) =
     (if triggered v then triggerTime (st v) else prevTriggerTime v)"
  "calls (loop_body n p v) =
     calls v @
     (if triggered v
      then [LoggingFlush,
            SetText (triggerCnt (st v)) (triggerTime (st v)) (triggerTime (st v) - prevTriggerTime v) n,
            Draw stimTrigger, WinFlip]
      else []) @ [GetTrigger (new_trigger p)]"
  by (simp_all add: loop_body_def Let_def)

lemma loop_unroll:
  "(\<forall>j<k. \<not> stops (ps (i + j))) \<Longrightarrow>
   polling_loop ps n i v = polling_loop ps n (i + k) (iterations ps n i k v)"
proof (induction k)
  case 0
  then show ?case by simp
next
  case (Suc k)
  then have "\<not> stops (ps (i + k))" by simp
  then have "polling_loop ps n (i + k) (iterations ps n i k v) =
     polling_loop ps n (Suc (i + k)) (iterations ps n i (Suc k) v)"
    by (subst polling_loop.simps) (simp add: stops_def not_le)
  with Suc show ?case by simp
qed

lemma loop_stop:
  "stops (ps i) \<Longrightarrow> polling_loop ps n i v = Some (checked (ps i) v)"
  by (subst polling_loop.simps) (auto simp: stops_def)

lemma loop_Some_stops:
  assumes "polling_loop ps n i v = Some v'"
  shows "\<exists>k\<ge>i. stops (ps k)"
  using assms
proof (rule polling_loop.raw_induct [rotated, where P = "\<lambda>ps n i v v'. \<exists>k\<ge>i. stops (ps k)"])
  fix f :: "(nat \<Rightarrow> poll) \<Rightarrow> int \<Rightarrow> nat \<Rightarrow> vars \<Rightarrow> vars option" and ps n i v v'
  assume IH: "\<And>ps n i v y. f ps n i v = Some y \<Longrightarrow> \<exists>k\<ge>i. stops (ps k)"
    and eq: "(if \<not> escape (ps i) \<and> elapsed (ps i) < 100
              then f ps n (Suc i) (loop_body n (ps i) (checked (ps i) v))
              else Some (checked (ps i) v)) = Some v'"
  show "\<exists>k\<ge>i. stops (ps k)"
  proof (cases "\<not> escape (ps i) \<and> elapsed (ps i) < 100")
    case True
    with eq have "f ps n (Suc i) (loop_body n (ps i) (checked (ps i) v)) = Some v'"
      by simp
    then obtain k where "Suc i \<le> k" "stops (ps k)"
      using IH by blast
    then show ?thesis
      using Suc_leD by blast
  next
    case False
    then have "stops (ps i)"
      by (auto simp: stops_def)
    then show ?thesis by blast
  qed
qed

lemma first_stop_iff: "first_stop ps k \<longleftrightarrow> stops (ps k) \<and> (\<forall>j<k. \<not> stops (ps j))"
  by (auto simp: first_stop_def)

lemma first_stop_unique: "first_stop ps k \<Longrightarrow> first_stop ps k' \<Longrightarrow> k = k'"
  unfolding first_stop_iff by (meson nat_neq_iff)

lemma first_stop_ex: "stops (ps k) \<Longrightarrow> \<exists>k'. first_stop ps k'"
proof (induction k rule: less_induct)
  case (less k)
  show ?case
  proof (cases "\<exists>j<k. stops (ps j)")
    case True
    then show ?thesis using less.IH by blast
  next
    case False
    with less.prems show ?thesis unfolding first_stop_iff by blast
  qed
qed

lemma loop_first_stop:
  "first_stop ps k \<Longrightarrow>
   polling_loop ps n 0 v = Some (checked (ps k) (iterations ps n 0 k v))"
  using loop_unroll [of k ps 0 n v] loop_stop [of ps k n "iterations ps n 0 k v"]
  by (simp add: first_stop_iff)

lemma loop_Some_iff:
  "polling_loop ps n 0 v = Some v' \<longleftrightarrow>
   (\<exists>k. first_stop ps k \<and> v' = checked (ps k) (iterations ps n 0 k v))"
proof
  assume a: "polling_loop ps n 0 v = Some v'"
  then obtain k0 where "stops (ps k0)"
    using loop_Some_stops by blast
  then obtain k where k: "first_stop ps k"
    using first_stop_ex by blast
  with a loop_first_stop [OF k, of n v]
  show "\<exists>k. first_stop ps k \<and> v' = checked (ps k) (iterations ps n 0 k v)"
    by auto
next
  assume "\<exists>k. first_stop ps k \<and> v' = checked (ps k) (iterations ps n 0 k v)"
  then show "polling_loop ps n 0 v = Some v'"
    using loop_first_stop by blast
qed

lemma iterations_triggered:
  "triggered (iterations ps n i k v) = (if k = 0 then triggered v else new_trigger (ps (i + k - 1)))"
  by (cases k) simp_all

lemma iterations_array_Suc:
  "deltaTriggerTimeArray (iterations ps n i (Suc k) v) =
     deltaTriggerTimeArray (iterations ps n i k v) @
     (if triggered (iterations ps n i k v)
      then [triggerTime (st (iterations ps n i k v)) - prevTriggerTime (iterations ps n i k v)]
      else [])"
  by simp

lemma iterations_length:
  "length (deltaTriggerTimeArray (iterations ps n 0 k v)) =
     length (deltaTriggerTimeArray v) + (if 0 < k \<and> triggered v then 1 else 0) +
     length (filter (\<lambda>j. new_trigger (ps j)) [0..<k - 1])"
proof (induction k)
  case 0
  then show ?case by simp
next
  case (Suc k)
  show ?case
  proof (cases k)
    case 0
    then show ?thesis by simp
  next
    case (Suc m)
    with Suc.IH show ?thesis
      unfolding iterations_array_Suc iterations_triggered by simp
  qed
qed

lemma iterations_checks:
  "(\<forall>j<k. \<not> stops (ps j)) \<Longrightarrow>
   filter is_check (calls (iterations ps n 0 k v)) =
     filter is_check (calls v) @ concat (map (\<lambda>j. iteration_checks (ps j)) [0..<k])"
proof (induction k)
  case 0
  then show ?case by simp
next
  case (Suc k)
  then have "\<not> escape (ps k)" by (simp add: stops_def)
  with Suc show ?case
    by (simp add: condition_calls_def iteration_checks_def)
qed

lemma iterations_first_zero:
  assumes "triggered v" "deltaTriggerTimeArray v = []" "prevTriggerTime v = triggerTime (st v)"
  shows "\<exists>rest. deltaTriggerTimeArray (iterations ps n 0 (Suc k) v) = 0 # rest"
proof (induction k)
  case 0
  from assms show ?case by simp
next
  case (Suc k)
  then obtain rest where "deltaTriggerTimeArray (iterations ps n 0 (Suc k) v) = 0 # rest"
    by blast
  then show ?case
    by (subst iterations_array_Suc) simp
qed

lemma iterations_st:
  "st (iterations ps n i k v) = (if k = 0 then st v else st_after (ps (i + k - 1)))"
  by (cases k) simp_all

lemma iterations_prev_Suc:
  "prevTriggerTime (iterations ps n i (Suc k) v) =
     (if triggered (iterations ps n i k v) then triggerTime (st (iterations ps n i k v))
      else prevTriggerTime (iterations ps n i k v))"
  by simp

lemma deltas_snoc: "deltas p (ts @ [t]) = deltas p ts @ [t - last (p # ts)]"
  by (induction ts arbitrary: p) auto

lemma accepted_Suc:
  "accepted t0 time0 ps (Suc k) =
     accepted t0 time0 ps k @
     (if k = 0 then (if t0 then [time0] else [])
      else if new_trigger (ps (k - 1)) then [triggerTime (st_after (ps (k - 1)))] else [])"
  by (cases k) (simp_all add: accepted_def)

lemma iterations_deltas:
  "deltaTriggerTimeArray (iterations ps n 0 k v) =
     deltaTriggerTimeArray v
       @ deltas (prevTriggerTime v) (accepted (triggered v) (triggerTime (st v)) ps k)
   \<and> prevTriggerTime (iterations ps n 0 k v) =
       last (prevTriggerTime v # accepted (triggered v) (triggerTime (st v)) ps k)"
proof (induction k)
  case 0
  then show ?case by (simp add: accepted_def)
next
  case (Suc k)
  show ?case
  proof (cases k)
    case 0
    then show ?thesis by (simp add: accepted_def)
  next
    case (Suc m)
    with Suc.IH show ?thesis
      unfolding iterations_array_Suc iterations_prev_Suc accepted_Suc
      by (simp add: iterations_triggered iterations_st deltas_snoc
          del: iterations.simps deltas.simps)
  qed
qed

lemma loop_call_facts:
  "loop_call n e \<Longrightarrow>
     \<not> blocks e \<and> e \<noteq> ClockReset \<and> \<not> is_dialog e \<and> (skip_used e = None \<or> skip_used e = Some n)"
  by (cases e) auto

lemma iterations_calls:
  "\<exists>post. calls (iterations ps n 0 k v) = calls v @ post \<and> list_all (loop_call n) post"
proof (induction k)
  case 0
  then show ?case by simp
next
  case (Suc k)
  then obtain post where post: "calls (iterations ps n 0 k v) = calls v @ post"
    "list_all (loop_call n) post"
    by blast
  define more where "more = condition_calls (ps k) @
     (if triggered (iterations ps n 0 k v)
      then [LoggingFlush,
            SetText (triggerCnt (st (iterations ps n 0 k v))) (triggerTime (st (iterations ps n 0 k v)))
              (triggerTime (st (iterations ps n 0 k v)) - prevTriggerTime (iterations ps n 0 k v)) n,
            Draw stimTrigger, WinFlip]
      else []) @ [GetTrigger (new_trigger (ps k))]"
  have "calls (iterations ps n 0 (Suc k) v) = calls v @ (post @ more)"
    by (simp add: post more_def)
  moreover have "list_all (loop_call n) (post @ more)"
    using post(2) by (simp add: more_def condition_calls_def)
  ultimately show ?case by blast
qed

lemma loop_calls:
  assumes "polling_loop ps n 0 v = Some v'"
  shows "\<exists>post. calls v' = calls v @ post \<and> list_all (loop_call n) post"
proof -
  from assms obtain k where v': "v' = checked (ps k) (iterations ps n 0 k v)"
    using loop_Some_iff by blast
  obtain post where post: "calls (iterations ps n 0 k v) = calls v @ post"
    "list_all (loop_call n) post"
    using iterations_calls by blast
  have "calls v' = calls v @ (post @ condition_calls (ps k))"
    by (simp add: v' post)
  moreover have "list_all (loop_call n) (post @ condition_calls (ps k))"
    using post(2) by (simp add: condition_calls_def)
  ultimately show ?thesis by blast
qed

subsection \<open>Auxiliary facts about the script\<close>

lemma startup_Inr:
  assumes "startup w = Inr (n, v)"
  shows "\<exists>t cfg. waitForTrigger w = Inr t \<and> skip_scans w = Inr n \<and> dlg_OK w
     \<and> MR_settings (triggering w) n = Inr cfg
     \<and> v = \<lparr>triggered = t, prevTriggerTime = triggerTime (st_waited w),
            deltaTriggerTimeArray = [], st = st_waited w,
            calls = setup_calls @ [TriggerCreate (triggering w) cfg, TriggerOpen]
                      @ wait_calls n @ [LoggingFlush, ClockReset]\<rparr>"
  using assms by (auto simp: startup_def split: if_splits sum.splits option.splits)

lemma after_loop_Some:
  assumes "after_loop w = Some v'"
  shows "\<exists>n v k. startup w = Inr (n, v) \<and> first_stop (polls w) k
     \<and> v' = checked (polls w k) (iterations (polls w) n 0 k v)"
proof -
  from assms obtain n v where s: "startup w = Inr (n, v)"
    and l: "polling_loop (polls w) n 0 v = Some v'"
    by (auto simp: after_loop_def split: sum.splits prod.splits)
  from l obtain k where "first_stop (polls w) k"
    "v' = checked (polls w k) (iterations (polls w) n 0 k v)"
    using loop_Some_iff by blast
  with s show ?thesis by blast
qed

lemma run_after_loop:
  "after_loop w = Some v \<Longrightarrow>
   run w = Some (calls v @ fst (data_output (deltaTriggerTimeArray v)),
                 snd (data_output (deltaTriggerTimeArray v)))"
  by (auto simp: after_loop_def run_def split: sum.splits prod.splits)

lemma data_output_calls:
  "e \<in> set (fst (data_output arr)) \<Longrightarrow> \<not> is_dialog e \<and> skip_used e = None"
  by (auto simp: data_output_def Let_def split: sum.splits)

lemma MR_settings_skip:
  "MR_settings p n = Inr cfg \<Longrightarrow>
     skip_used (TriggerCreate p cfg) = None \<or> skip_used (TriggerCreate p cfg) = Some n"
  by (auto simp: MR_settings_def split: if_splits)

lemma startup_calls_dialog:
  "\<exists>rest. startup_calls w = DlgFromDict expInfo # rest \<and> filter is_dialog rest = []"
  by (auto simp: startup_calls_def startup_def setup_calls_def wait_calls_def except_handler_def
      split: sum.splits option.splits)

lemma startup_calls_skip:
  assumes "dlg_OK w" and "skip_scans w = Inr n" and "c \<in> set (startup_calls w)"
  shows "skip_used c = None \<or> skip_used c = Some n"
proof (cases "MR_settings (triggering w) n")
  case (Inl e)
  with assms show ?thesis
    by (auto simp: startup_calls_def startup_def setup_calls_def)
next
  case (Inr cfg)
  with assms MR_settings_skip [OF Inr] show ?thesis
    by (auto simp: startup_calls_def startup_def setup_calls_def wait_calls_def
        except_handler_def split: sum.splits option.splits)
qed

lemma run_calls:
  assumes "run w = Some (cs, out)"
  shows "(startup w = Inl (cs, out) \<and> cs = startup_calls w)
     \<or> (\<exists>n v0 post arr. startup w = Inr (n, v0)
           \<and> cs = startup_calls w @ post @ fst (data_output arr)
           \<and> list_all (loop_call n) post)"
proof (cases "startup w")
  case (Inl r)
  with assms show ?thesis
    by (auto simp: run_def startup_calls_def)
next
  case (Inr b)
  then obtain n v0 where s: "startup w = Inr (n, v0)"
    by (cases b) auto
  with assms obtain v' where l: "polling_loop (polls w) n 0 v0 = Some v'"
    and cs: "cs = calls v' @ fst (data_output (deltaTriggerTimeArray v'))"
    by (auto simp: run_def split: option.splits)
  from loop_calls [OF l] obtain post where "calls v' = calls v0 @ post"
    "list_all (loop_call n) post"
    by blast
  with s cs show ?thesis
    by (auto simp: startup_calls_def)
qed

lemma data_output_empty:
  "length arr < 2 \<Longrightarrow>
   data_output arr =
     ([LoggingData ''Mean deltaTime'' NaN, LoggingData ''Stdev deltaTime'' NaN],
      Uncaught (ValueError ''zero-size array to reduction operation maximum which has no identity''))"
  by (simp add: data_output_def np_max_def np_mean_def np_std_def)

lemma data_output_slice:
  assumes "rest \<noteq> []"
  shows "data_output (x # rest) =
    ([LoggingData ''Mean deltaTime'' (np_mean rest),
      LoggingData ''Stdev deltaTime'' (np_std rest),
      LoggingData ''Max deltaTime'' (Num (Max (set rest))),
      LoggingData ''Min deltaTime'' (Num (Min (set rest))),
      LoggingFlush, PltFigure,
      PltHist rest (binWidth (length (x # rest))),
      PltTitle (np_mean rest) (np_std rest),
      PltXlabel ''delta time'', PltYlabel ''frequency'', PltShow,
      TriggerClose, WinClose, CoreQuit], Exited)"
proof -
  from assms obtain y ys where rest: "rest = y # ys"
    by (cases rest) auto
  have "fold max ys y = Max (set rest)" "fold min ys y = Min (set rest)"
    using Max.set_eq_fold [of y ys] Min.set_eq_fold [of y ys] by (simp_all add: rest)
  then show ?thesis
    by (simp add: data_output_def np_max_def np_min_def Let_def rest)
qed

lemma count_trigger_checks:
  "filter (\<lambda>e. e = GetTrigger True) cs = filter (\<lambda>e. e = GetTrigger True) (filter is_check cs)"
  by (induction cs) auto

lemma count_pulses:
  "length (filter (\<lambda>e. e = GetTrigger True) (concat (map (\<lambda>j. iteration_checks (ps j)) [0..<k])))
     = length (filter (\<lambda>j. new_trigger (ps j)) [0..<k])"
  by (induction k) (simp_all add: iteration_checks_def)

text \<open>The number of bins, by integer arithmetic.\<close>

lemma binWidth_eq:
  assumes "0 < b" and "(b - 1) ^ 3 < 64 * int n" and "64 * int n \<le> b ^ 3"
  shows "binWidth n = b"
proof -
  define r where "r = root 3 (real n)"
  have r3: "r ^ 3 = real n"
    unfolding r_def by (simp add: odd_real_root_pow)
  have r0: "0 \<le> r"
    unfolding r_def by simp
  have up: "4 * r \<le> real_of_int b"
  proof (rule ccontr)
    assume "\<not> 4 * r \<le> real_of_int b"
    then have "real_of_int b < 4 * r" by simp
    moreover have "0 \<le> real_of_int b" using assms(1) by simp
    ultimately have "real_of_int b ^ 3 < (4 * r) ^ 3"
      by (rule power_strict_mono) simp
    then have "real_of_int (b ^ 3) < real_of_int (64 * int n)"
      by (simp add: power_mult_distrib r3)
    then have "b ^ 3 < 64 * int n"
      by (simp only: of_int_less_iff)
    with assms(3) show False by simp
  qed
  have lo: "real_of_int b - 1 < 4 * r"
  proof (rule ccontr)
    assume "\<not> real_of_int b - 1 < 4 * r"
    then have "4 * r \<le> real_of_int (b - 1)" by simp
    moreover have "0 \<le> 4 * r" using r0 by simp
    ultimately have "(4 * r) ^ 3 \<le> real_of_int (b - 1) ^ 3"
      by (rule power_mono)
    then have "real_of_int (64 * int n) \<le> real_of_int ((b - 1) ^ 3)"
      by (simp add: power_mult_distrib r3)
    then have "64 * int n \<le> (b - 1) ^ 3"
      by (simp only: of_int_le_iff)
    with assms(2) show False by simp
  qed
  from lo up show ?thesis
    unfolding binWidth_def r_def [symmetric] by (rule ceiling_unique)
qed

lemma binWidth_3: "binWidth (Suc (Suc (Suc 0))) = 6"
  by (rule binWidth_eq) simp_all

lemma binWidth_4: "binWidth (Suc (Suc (Suc (Suc 0)))) = 7"
  by (rule binWidth_eq) simp_all

lemma MR_settings_unrecognised:
  "p \<notin> {''keyboard'', ''dummy'', ''serial'', ''parallel'', ''cedrus'', ''launchscan''} \<Longrightarrow>
   MR_settings p n = Inl (ValueError ''The selected Port type does not exist!'')"
  by (simp add: MR_settings_def)

subsection \<open>The runs of the worlds above\<close>

lemmas py_int_defs = skip_scans_def py_int_def strip_def is_space_def is_digit_def decimal_def
  digit_value_def Let_def

lemmas world_defs = keyboard_world_def script_def idle_def pulse_def escape_pressed_def
  py_int_defs

lemmas eval_defs = world_defs startup_def MR_settings_def setup_calls_def wait_calls_def
  except_handler_def expInfo_def ValueError_def checked_def loop_body_def condition_calls_def

lemma early_escape_loop:
  "after_loop early_escape =
     Some \<lparr>triggered = False, prevTriggerTime = 5, deltaTriggerTimeArray = [0],
           st = \<lparr>triggerTime = 5, triggerCnt = 0\<rparr>,
           calls = setup_keyboard @
             [GetKeys False, GetTime 1,
              LoggingFlush, SetText 0 5 0 0, Draw stimTrigger, WinFlip, GetTrigger False,
              GetKeys True]\<rparr>"
  by (simp add: after_loop_def early_escape_def polling_loop.simps eval_defs setup_keyboard_def)

lemma three_triggers_loop:
  "after_loop three_triggers =
     Some \<lparr>triggered = False, prevTriggerTime = 9, deltaTriggerTimeArray = [0, 2, 2],
           st = \<lparr>triggerTime = 9, triggerCnt = 2\<rparr>,
           calls = setup_keyboard @
             [GetKeys False, GetTime 2,
              LoggingFlush, SetText 0 5 0 0, Draw stimTrigger, WinFlip, GetTrigger True,
              GetKeys False, GetTime 4,
              LoggingFlush, SetText 1 7 2 0, Draw stimTrigger, WinFlip, GetTrigger True,
              GetKeys False, GetTime 5,
              LoggingFlush, SetText 2 9 2 0, Draw stimTrigger, WinFlip, GetTrigger False,
              GetKeys True]\<rparr>"
  by (simp add: after_loop_def three_triggers_def polling_loop.simps eval_defs setup_keyboard_def)

lemma four_triggers_loop:
  "after_loop four_triggers =
     Some \<lparr>triggered = False, prevTriggerTime = 11, deltaTriggerTimeArray = [0, 2, 2, 2],
           st = \<lparr>triggerTime = 11, triggerCnt = 3\<rparr>,
           calls = setup_keyboard @
             [GetKeys False, GetTime 2,
              LoggingFlush, SetText 0 5 0 0, Draw stimTrigger, WinFlip, GetTrigger True,
              GetKeys False, GetTime 4,
              LoggingFlush, SetText 1 7 2 0, Draw stimTrigger, WinFlip, GetTrigger True,
              GetKeys False, GetTime 6,
              LoggingFlush, SetText 2 9 2 0, Draw stimTrigger, WinFlip, GetTrigger True,
              GetKeys False, GetTime 7,
              LoggingFlush, SetText 3 11 2 0, Draw stimTrigger, WinFlip, GetTrigger False,
              GetKeys True]\<rparr>"
  by (simp add: after_loop_def four_triggers_def polling_loop.simps eval_defs setup_keyboard_def)

lemma keyboard_startup:
  "startup (keyboard_world ps) =
     Inr (0, \<lparr>triggered = True, prevTriggerTime = 5, deltaTriggerTimeArray = [],
              st = \<lparr>triggerTime = 5, triggerCnt = 0\<rparr>, calls = setup_keyboard\<rparr>)"
  by (simp add: keyboard_world_def startup_def MR_settings_def setup_calls_def wait_calls_def
      setup_keyboard_def py_int_defs)

lemma timed_out_loop:
  "after_loop timed_out =
     Some \<lparr>triggered = False, prevTriggerTime = 5, deltaTriggerTimeArray = [],
           st = \<lparr>triggerTime = 0, triggerCnt = 0\<rparr>,
           calls = setup_keyboard @
             [GetKeys False, GetTime 0, GetTrigger False,
              GetKeys False, GetTime 50, GetTrigger False,
              GetKeys False, GetTime 100]\<rparr>"
  by (simp add: after_loop_def timed_out_def polling_loop.simps eval_defs setup_keyboard_def)

lemma three_triggers_stop: "first_stop (polls three_triggers) 3"
  by (simp add: first_stop_iff stops_def three_triggers_def world_defs eval_nat_numeral
      less_Suc_eq)

lemma serial_settings:
  "MR_settings ''serial'' 0 =
     Inr [(''port'', SStr ''COM5''), (''baudrate'', SInt 9600), (''sync'', SStr ''5'')]"
  "MR_settings ''keyboard'' 2 = Inr [(''keyList'', SStr ''t''), (''maxWait'', SInt 9999999)]"
  by (simp_all add: MR_settings_def)

section \<open>The claims\<close>

subsection \<open>C1: the length of the delta array\<close>

text \<open>
  C1, as the code has it.  When the loop has ended at the \<open>k\<close>-th evaluation of its
  condition, the delta array holds one entry for each of the \<open>k\<close> iterations that started
  with \<open>triggered\<close> true: one for the first trigger, when \<open>waitForTrigger\<close> returned true and
  the body ran at least once, and one for each \<open>getTrigger\<close> call but the last that
  reported a trigger.  Each entry is the time of its trigger minus the time of the trigger
  before it, so the entry of the first trigger is 0.  The result of the last \<open>getTrigger\<close>
  call is never read, and the triggers that \<open>waitForTrigger\<close> skips add no entry: the
  number of scans to skip does not enter the length.
\<close>

theorem delta_array_length:
  assumes "after_loop w = Some v" and "waitForTrigger w = Inr t"
  shows "\<exists>k. first_stop (polls w) k
    \<and> length (deltaTriggerTimeArray v) =
        (if t \<and> 0 < k then 1 else 0) + length (filter (\<lambda>j. new_trigger (polls w j)) [0..<k - 1])
    \<and> deltaTriggerTimeArray v =
        deltas (triggerTime (st_waited w)) (accepted t (triggerTime (st_waited w)) (polls w) k)
    \<and> length (filter (\<lambda>e. e = GetTrigger True) (calls v)) =
        length (filter (\<lambda>j. new_trigger (polls w j)) [0..<k])"
proof -
  from assms(1) obtain n v0 k where s: "startup w = Inr (n, v0)"
    and k: "first_stop (polls w) k"
    and v: "v = checked (polls w k) (iterations (polls w) n 0 k v0)"
    using after_loop_Some by blast
  from startup_Inr [OF s] assms(2) obtain cfg where
    v0: "v0 = \<lparr>triggered = t, prevTriggerTime = triggerTime (st_waited w),
            deltaTriggerTimeArray = [], st = st_waited w,
            calls = setup_calls @ [TriggerCreate (triggering w) cfg, TriggerOpen]
                      @ wait_calls n @ [LoggingFlush, ClockReset]\<rparr>"
    by auto
  have len: "length (deltaTriggerTimeArray v) =
        (if t \<and> 0 < k then 1 else 0) + length (filter (\<lambda>j. new_trigger (polls w j)) [0..<k - 1])"
    using iterations_length [of "polls w" n k v0] by (auto simp: v v0)
  have vals: "deltaTriggerTimeArray v =
        deltas (triggerTime (st_waited w)) (accepted t (triggerTime (st_waited w)) (polls w) k)"
    using iterations_deltas [of "polls w" n k v0] by (simp add: v v0)
  from k have before: "\<forall>j<k. \<not> stops (polls w j)"
    by (simp add: first_stop_iff)
  have "filter is_check (calls v0) = []"
    by (simp add: v0 setup_calls_def wait_calls_def)
  then have "filter is_check (calls v) =
      concat (map (\<lambda>j. iteration_checks (polls w j)) [0..<k])
      @ filter is_check (condition_calls (polls w k))"
    using iterations_checks [OF before, of n v0] by (simp add: v)
  then have "filter (\<lambda>e. e = GetTrigger True) (calls v) =
      filter (\<lambda>e. e = GetTrigger True) (concat (map (\<lambda>j. iteration_checks (polls w j)) [0..<k]))"
    by (subst count_trigger_checks) (simp add: condition_calls_def)
  then have "length (filter (\<lambda>e. e = GetTrigger True) (calls v)) =
        length (filter (\<lambda>j. new_trigger (polls w j)) [0..<k])"
    by (simp add: count_pulses)
  with k len vals show ?thesis by blast
qed

text \<open>With triggers at 5, 7 and 9 and the escape key at the fourth evaluation of the
  condition, the array has three entries, and two \<open>getTrigger\<close> calls reported a trigger.\<close>

theorem delta_array_length_witness:
  "\<exists>v. after_loop three_triggers = Some v \<and> waitForTrigger three_triggers = Inr True
     \<and> first_stop (polls three_triggers) 3
     \<and> length (deltaTriggerTimeArray v) = 3
     \<and> deltaTriggerTimeArray v = deltas 5 [5, 7, 9]
     \<and> length (filter (\<lambda>e. e = GetTrigger True) (calls v)) = 2"
proof -
  have w: "waitForTrigger three_triggers = Inr True"
    by (simp add: three_triggers_def keyboard_world_def)
  obtain k where k: "first_stop (polls three_triggers) k"
    and cnt: "length (filter (\<lambda>e. e = GetTrigger True)
          (setup_keyboard @
             [GetKeys False, GetTime 2,
              LoggingFlush, SetText 0 5 0 0, Draw stimTrigger, WinFlip, GetTrigger True,
              GetKeys False, GetTime 4,
              LoggingFlush, SetText 1 7 2 0, Draw stimTrigger, WinFlip, GetTrigger True,
              GetKeys False, GetTime 5,
              LoggingFlush, SetText 2 9 2 0, Draw stimTrigger, WinFlip, GetTrigger False,
              GetKeys True])) =
        length (filter (\<lambda>j. new_trigger (polls three_triggers j)) [0..<k])"
    using delta_array_length [OF three_triggers_loop w] by auto
  have k3: "k = 3"
    using first_stop_unique [OF k three_triggers_stop] .
  have "length (filter (\<lambda>j. new_trigger (polls three_triggers j)) [0..<3]) = 2"
    using cnt unfolding k3 by (simp add: setup_keyboard_def)
  with three_triggers_loop w three_triggers_stop show ?thesis
    by (simp add: setup_keyboard_def)
qed

text \<open>
  C1, as the specification states it, fails.  The first trigger arrives, no scan is
  skipped, and the escape key is pressed before a second trigger: no trigger was seen after
  the first, and the array holds one entry.
\<close>

theorem delta_array_length_counterexample:
  "entries early_escape = Some 1 \<and> later_triggers early_escape = Some 0
   \<and> skip_scans early_escape = Inr 0"
  by (simp add: entries_def later_triggers_def early_escape_loop setup_keyboard_def)
    (simp add: early_escape_def keyboard_world_def skip_scans_def py_int_def)

subsection \<open>C2: the two guarded failure points\<close>

text \<open>
  C2.  Two blocks are guarded: the construction and opening of the trigger object, and
  the first \<open>waitForTrigger\<close> call.  An exception raised there is followed by
  \<open>logging.flush()\<close>, the printed message and \<open>core.quit()\<close>, and by nothing else.  The
  other raises of the script (the conversion of the skip count, the device dispatch, the
  maximum of an empty array) are not handled: the exception ends the run.
\<close>

theorem guarded_failure_points:
  assumes "dlg_OK w"
  shows
   "(skip_scans w = Inl e \<longrightarrow> run w = Some (setup_calls, Uncaught e))
    \<and> (skip_scans w = Inr n \<and> MR_settings (triggering w) n = Inl e \<longrightarrow>
         run w = Some (setup_calls, Uncaught e))
    \<and> (skip_scans w = Inr n \<and> MR_settings (triggering w) n = Inr cfg \<and>
        create_raises w = Some e \<longrightarrow>
         run w = Some (setup_calls @
                 [TriggerCreate (triggering w) cfg,
                  LoggingFlush, Print (''ScannerTrigger Error: '' @ msg e), CoreQuit], Exited))
    \<and> (skip_scans w = Inr n \<and> MR_settings (triggering w) n = Inr cfg \<and>
        create_raises w = None \<and> open_raises w = Some e \<longrightarrow>
         run w = Some (setup_calls @
                 [TriggerCreate (triggering w) cfg, TriggerOpen,
                  LoggingFlush, Print (''ScannerTrigger Error: '' @ msg e), CoreQuit], Exited))
    \<and> (skip_scans w = Inr n \<and> MR_settings (triggering w) n = Inr cfg \<and>
        create_raises w = None \<and> open_raises w = None \<and> waitForTrigger w = Inl e \<longrightarrow>
         run w = Some (setup_calls @
                 [TriggerCreate (triggering w) cfg, TriggerOpen,
                  Draw stimScanner, WinFlip, Print ''Waiting for the Trigger'', WaitForTrigger n,
                  LoggingFlush, Print (''ScannerTrigger Error: '' @ msg e), CoreQuit], Exited))
    \<and> (after_loop w = Some v \<and> np_max (drop 1 (deltaTriggerTimeArray v)) = Inl e \<longrightarrow>
         run w = Some (calls v @
                 [LoggingData ''Mean deltaTime'' (np_mean (drop 1 (deltaTriggerTimeArray v))),
                  LoggingData ''Stdev deltaTime'' (np_std (drop 1 (deltaTriggerTimeArray v)))],
                 Uncaught e))"
proof -
  have "after_loop w = Some v \<Longrightarrow> np_max (drop 1 (deltaTriggerTimeArray v)) = Inl e \<Longrightarrow>
    run w = Some (calls v @
                 [LoggingData ''Mean deltaTime'' (np_mean (drop 1 (deltaTriggerTimeArray v))),
                  LoggingData ''Stdev deltaTime'' (np_std (drop 1 (deltaTriggerTimeArray v)))],
                 Uncaught e)"
    by (simp add: run_after_loop data_output_def Let_def)
  moreover have "skip_scans w = Inl e \<longrightarrow> run w = Some (setup_calls, Uncaught e)"
    using assms by (simp add: run_def startup_def)
  moreover have "skip_scans w = Inr n \<and> MR_settings (triggering w) n = Inl e \<longrightarrow>
         run w = Some (setup_calls, Uncaught e)"
    using assms by (simp add: run_def startup_def)
  moreover have "skip_scans w = Inr n \<and> MR_settings (triggering w) n = Inr cfg \<and>
        create_raises w = Some e \<longrightarrow>
         run w = Some (setup_calls @
                 [TriggerCreate (triggering w) cfg,
                  LoggingFlush, Print (''ScannerTrigger Error: '' @ msg e), CoreQuit], Exited)"
    using assms by (simp add: run_def startup_def except_handler_def)
  moreover have "skip_scans w = Inr n \<and> MR_settings (triggering w) n = Inr cfg \<and>
        create_raises w = None \<and> open_raises w = Some e \<longrightarrow>
         run w = Some (setup_calls @
                 [TriggerCreate (triggering w) cfg, TriggerOpen,
                  LoggingFlush, Print (''ScannerTrigger Error: '' @ msg e), CoreQuit], Exited)"
    using assms by (simp add: run_def startup_def except_handler_def)
  moreover have "skip_scans w = Inr n \<and> MR_settings (triggering w) n = Inr cfg \<and>
        create_raises w = None \<and> open_raises w = None \<and> waitForTrigger w = Inl e \<longrightarrow>
         run w = Some (setup_calls @
                 [TriggerCreate (triggering w) cfg, TriggerOpen,
                  Draw stimScanner, WinFlip, Print ''Waiting for the Trigger'', WaitForTrigger n,
                  LoggingFlush, Print (''ScannerTrigger Error: '' @ msg e), CoreQuit], Exited)"
    using assms by (simp add: run_def startup_def except_handler_def wait_calls_def)
  ultimately show ?thesis by blast
qed

text \<open>The serial port cannot be opened, in \<open>create\<close> and in \<open>open\<close>; the wait fails;
  the skip count is no number.\<close>

theorem guarded_failure_points_witness:
  "run create_fails =
     Some (setup_calls @
           [TriggerCreate ''serial''
              [(''port'', SStr ''COM5''), (''baudrate'', SInt 9600), (''sync'', SStr ''5'')],
            LoggingFlush, Print ''ScannerTrigger Error: could not open port COM5'', CoreQuit],
           Exited)
   \<and> run open_fails =
     Some (setup_calls @
           [TriggerCreate ''serial''
              [(''port'', SStr ''COM5''), (''baudrate'', SInt 9600), (''sync'', SStr ''5'')],
            TriggerOpen,
            LoggingFlush, Print ''ScannerTrigger Error: could not open port COM5'', CoreQuit],
           Exited)
   \<and> run wait_fails =
     Some (setup_calls @
           [TriggerCreate ''keyboard'' [(''keyList'', SStr ''t''), (''maxWait'', SInt 9999999)],
            TriggerOpen,
            Draw stimScanner, WinFlip, Print ''Waiting for the Trigger'', WaitForTrigger 2,
            LoggingFlush, Print ''ScannerTrigger Error: timeout'', CoreQuit],
           Exited)
   \<and> run skip_not_a_number =
     Some (setup_calls,
           Uncaught (ValueError (''invalid literal for int() with base 10: '' @ [CHR 0x27] @ ''two'' @ [CHR 0x27])))"
proof -
  have c: "dlg_OK create_fails" "skip_scans create_fails = Inr 0"
    "triggering create_fails = ''serial''" "create_raises create_fails = Some port_missing"
    by (simp_all add: create_fails_def keyboard_world_def skip_scans_def py_int_def)
  have o: "dlg_OK open_fails" "skip_scans open_fails = Inr 0"
    "triggering open_fails = ''serial''" "create_raises open_fails = None"
    "open_raises open_fails = Some port_missing"
    by (simp_all add: open_fails_def keyboard_world_def skip_scans_def py_int_def)
  have t: "dlg_OK wait_fails" "skip_scans wait_fails = Inr 2"
    "triggering wait_fails = ''keyboard''" "create_raises wait_fails = None"
    "open_raises wait_fails = None" "waitForTrigger wait_fails = Inl (Exn ''RuntimeError'' ''timeout'')"
    by (simp_all add: wait_fails_def keyboard_world_def skip_scans_def py_int_def)
  have s: "dlg_OK skip_not_a_number"
    "skip_scans skip_not_a_number =
       Inl (ValueError (''invalid literal for int() with base 10: '' @ [CHR 0x27] @ ''two'' @ [CHR 0x27]))"
    by (simp_all add: skip_not_a_number_def keyboard_world_def py_int_defs)
  have m: "msg port_missing = ''could not open port COM5''"
    by (simp add: port_missing_def)
  show ?thesis
    using guarded_failure_points [OF c(1), of port_missing 0 _ undefined]
      guarded_failure_points [OF o(1), of port_missing 0 _ undefined]
      guarded_failure_points [OF t(1), of "Exn ''RuntimeError'' ''timeout''" 2 _ undefined]
      guarded_failure_points [OF s(1),
        of "ValueError (''invalid literal for int() with base 10: '' @ [CHR 0x27] @ ''two'' @ [CHR 0x27])"
          0 _ undefined]
      c o t s m serial_settings
    by simp
qed

subsection \<open>C3: an unrecognised device type\<close>

text \<open>
  C3.  When the dialog was confirmed and the skip count converted, a device type outside
  the six recognised strings makes the dispatch raise \<open>ValueError\<close>.  Up to then the script
  has shown the dialog and made the window and the two stimuli; no trigger object is made,
  and no handler catches the exception.
\<close>

theorem unrecognised_device_raises:
  assumes "dlg_OK w" and "skip_scans w = Inr n"
    and "triggering w \<notin> {''keyboard'', ''dummy'', ''serial'', ''parallel'', ''cedrus'', ''launchscan''}"
  shows "run w =
    Some ([DlgFromDict expInfo, Window, TextStim ''Wait for trigger...'', TextStim ''TRIGGER''],
          Uncaught (ValueError ''The selected Port type does not exist!''))"
  using assms MR_settings_unrecognised [OF assms(3), of n]
  by (simp add: run_def startup_def setup_calls_def)

theorem unrecognised_device_raises_witness:
  "dlg_OK mouse_selected \<and> skip_scans mouse_selected = Inr 0 \<and>
   triggering mouse_selected = ''mouse'' \<and>
   run mouse_selected =
    Some ([DlgFromDict expInfo, Window, TextStim ''Wait for trigger...'', TextStim ''TRIGGER''],
          Uncaught (ValueError ''The selected Port type does not exist!''))"
proof -
  have h: "dlg_OK mouse_selected" "skip_scans mouse_selected = Inr 0"
    "triggering mouse_selected \<notin> {''keyboard'', ''dummy'', ''serial'', ''parallel'', ''cedrus'', ''launchscan''}"
    by (simp_all add: mouse_selected_def keyboard_world_def skip_scans_def py_int_def)
  have "triggering mouse_selected = ''mouse''"
    by (simp add: mouse_selected_def keyboard_world_def)
  then show ?thesis
    using h unrecognised_device_raises [OF h] by simp
qed

subsection \<open>C4: when the loop ends\<close>

text \<open>
  C4.  In a run that reaches the loop, \<open>timeOutClock\<close> is reset once, right after the
  first \<open>waitForTrigger\<close> has returned and before the first poll, and never inside the
  loop: its readings are the time since that wait.  The loop ends if and only if some
  evaluation of its condition finds the escape key or a reading of 100 or more; it ends at
  the first such evaluation, and otherwise the run never ends.  Each iteration before that
  makes the three polls, in this order: the keyboard, the clock, the trigger; the last
  evaluation reads the clock only when it found no escape key.  No call of the loop is the
  blocking wait.
\<close>

theorem polling_loop_ends:
  assumes "startup w = Inr (n, v0)"
  shows
   "(\<exists>pre. calls v0 = pre @ [WaitForTrigger n, LoggingFlush, ClockReset]
        \<and> ClockReset \<notin> set pre \<and> filter is_check pre = [])
    \<and> blocks (WaitForTrigger n)
    \<and> ((\<exists>v. after_loop w = Some v) \<longleftrightarrow> (\<exists>k. escape (polls w k) \<or> 100 \<le> elapsed (polls w k)))
    \<and> (run w = None \<longleftrightarrow> (\<forall>k. \<not> escape (polls w k) \<and> elapsed (polls w k) < 100))
    \<and> (\<forall>v. after_loop w = Some v \<longrightarrow>
         (\<exists>k post. (escape (polls w k) \<or> 100 \<le> elapsed (polls w k))
            \<and> (\<forall>j<k. \<not> escape (polls w j) \<and> elapsed (polls w j) < 100)
            \<and> calls v = calls v0 @ post
            \<and> ClockReset \<notin> set post
            \<and> filter blocks post = []
            \<and> filter is_check post =
                concat (map (\<lambda>j. [GetKeys False, GetTime (elapsed (polls w j)),
                                      GetTrigger (new_trigger (polls w j))]) [0..<k])
                @ (if escape (polls w k) then [GetKeys True]
                   else [GetKeys False, GetTime (elapsed (polls w k))])))"
proof (intro conjI allI impI)
  from startup_Inr [OF assms] obtain cfg where
    c: "calls v0 = setup_calls @ [TriggerCreate (triggering w) cfg, TriggerOpen]
                      @ wait_calls n @ [LoggingFlush, ClockReset]"
    by auto
  define pre where "pre = setup_calls @
    [TriggerCreate (triggering w) cfg, TriggerOpen, Draw stimScanner, WinFlip,
     Print ''Waiting for the Trigger'']"
  have "calls v0 = pre @ [WaitForTrigger n, LoggingFlush, ClockReset]"
    "ClockReset \<notin> set pre" "filter is_check pre = []"
    by (simp_all add: c pre_def setup_calls_def wait_calls_def)
  then show "\<exists>pre. calls v0 = pre @ [WaitForTrigger n, LoggingFlush, ClockReset]
        \<and> ClockReset \<notin> set pre \<and> filter is_check pre = []"
    by blast
next
  show "blocks (WaitForTrigger n)" by simp
next
  have al: "after_loop w = polling_loop (polls w) n 0 v0"
    by (simp add: after_loop_def assms)
  show "(\<exists>v. after_loop w = Some v) \<longleftrightarrow> (\<exists>k. escape (polls w k) \<or> 100 \<le> elapsed (polls w k))"
  proof
    assume "\<exists>v. after_loop w = Some v"
    then obtain k where "stops (polls w k)"
      using loop_Some_stops al by metis
    then show "\<exists>k. escape (polls w k) \<or> 100 \<le> elapsed (polls w k)"
      unfolding stops_def by blast
  next
    assume "\<exists>k. escape (polls w k) \<or> 100 \<le> elapsed (polls w k)"
    then obtain k where "stops (polls w k)"
      unfolding stops_def by blast
    then obtain k' where "first_stop (polls w) k'"
      using first_stop_ex by blast
    then show "\<exists>v. after_loop w = Some v"
      using loop_first_stop al by metis
  qed
  then have "\<not> (\<exists>v. after_loop w = Some v) \<longleftrightarrow>
      \<not> (\<exists>k. escape (polls w k) \<or> 100 \<le> elapsed (polls w k))"
    by (rule arg_cong)
  moreover have "after_loop w = None \<longleftrightarrow> \<not> (\<exists>v. after_loop w = Some v)"
    by (cases "after_loop w") simp_all
  moreover have "\<not> (\<exists>k. escape (polls w k) \<or> 100 \<le> elapsed (polls w k)) \<longleftrightarrow>
      (\<forall>k. \<not> escape (polls w k) \<and> elapsed (polls w k) < 100)"
    by (simp add: not_le)
  moreover have "run w = None \<longleftrightarrow> after_loop w = None"
    by (simp add: run_def after_loop_def assms split: option.splits)
  ultimately show "run w = None \<longleftrightarrow> (\<forall>k. \<not> escape (polls w k) \<and> elapsed (polls w k) < 100)"
    by (simp only:)
next
  fix v
  assume "after_loop w = Some v"
  then have l: "polling_loop (polls w) n 0 v0 = Some v"
    by (simp add: after_loop_def assms)
  then obtain k where k: "first_stop (polls w) k"
    and v: "v = checked (polls w k) (iterations (polls w) n 0 k v0)"
    using loop_Some_iff by blast
  from k have before: "\<forall>j<k. \<not> stops (polls w j)" and at: "stops (polls w k)"
    by (simp_all add: first_stop_iff)
  from loop_calls [OF l] obtain post where post: "calls v = calls v0 @ post"
    "list_all (loop_call n) post"
    by blast
  have "\<forall>e \<in> set post. \<not> blocks e \<and> e \<noteq> ClockReset"
    using post(2) loop_call_facts by (auto simp: list_all_iff)
  then have quiet: "ClockReset \<notin> set post" "filter blocks post = []"
    by (auto simp: filter_empty_conv)
  have "filter is_check (calls v) =
          filter is_check (calls v0)
          @ concat (map (\<lambda>j. iteration_checks (polls w j)) [0..<k])
          @ filter is_check (condition_calls (polls w k))"
    using iterations_checks [OF before, of n v0] by (simp add: v)
  then have "filter is_check post =
          concat (map (\<lambda>j. iteration_checks (polls w j)) [0..<k])
          @ filter is_check (condition_calls (polls w k))"
    by (simp add: post(1))
  moreover have "filter is_check (condition_calls (polls w k)) =
      (if escape (polls w k) then [GetKeys True]
       else [GetKeys False, GetTime (elapsed (polls w k))])"
    by (simp add: condition_calls_def)
  ultimately have checks: "filter is_check post =
          concat (map (\<lambda>j. [GetKeys False, GetTime (elapsed (polls w j)),
                                GetTrigger (new_trigger (polls w j))]) [0..<k])
          @ (if escape (polls w k) then [GetKeys True]
             else [GetKeys False, GetTime (elapsed (polls w k))])"
    by (simp add: iteration_checks_def)
  from before have "\<forall>j<k. \<not> escape (polls w j) \<and> elapsed (polls w j) < 100"
    by (auto simp: stops_def)
  moreover from at have "escape (polls w k) \<or> 100 \<le> elapsed (polls w k)"
    by (simp add: stops_def)
  ultimately show "\<exists>k post. (escape (polls w k) \<or> 100 \<le> elapsed (polls w k))
            \<and> (\<forall>j<k. \<not> escape (polls w j) \<and> elapsed (polls w j) < 100)
            \<and> calls v = calls v0 @ post
            \<and> ClockReset \<notin> set post
            \<and> filter blocks post = []
            \<and> filter is_check post =
                concat (map (\<lambda>j. [GetKeys False, GetTime (elapsed (polls w j)),
                                      GetTrigger (new_trigger (polls w j))]) [0..<k])
                @ (if escape (polls w k) then [GetKeys True]
                   else [GetKeys False, GetTime (elapsed (polls w k))])"
    using post(1) quiet checks by blast
qed

text \<open>With no escape key and a clock that stands still the run never ends.  When no
  trigger arrives, the loop ends at the reading 100 of the clock that was reset after the
  wait; and it ends when the escape key is found.\<close>

theorem polling_loop_ends_witness:
  "run never_ending = None
   \<and> (\<exists>v0 v. startup timed_out = Inr (0, v0) \<and> after_loop timed_out = Some v
         \<and> calls v0 = setup_keyboard
         \<and> elapsed (polls timed_out 2) = 100
         \<and> calls v = setup_keyboard @
             [GetKeys False, GetTime 0, GetTrigger False,
              GetKeys False, GetTime 50, GetTrigger False,
              GetKeys False, GetTime 100])
   \<and> (\<exists>v0 v. startup early_escape = Inr (0, v0) \<and> after_loop early_escape = Some v
         \<and> calls v0 = setup_keyboard
         \<and> escape (polls early_escape 1)
         \<and> calls v = setup_keyboard @
             [GetKeys False, GetTime 1,
              LoggingFlush, SetText 0 5 0 0, Draw stimTrigger, WinFlip, GetTrigger False,
              GetKeys True])"
proof -
  have "\<forall>k. \<not> escape (polls never_ending k) \<and> elapsed (polls never_ending k) < 100"
    by (simp add: never_ending_def keyboard_world_def frozen_clock_def idle_def)
  with polling_loop_ends [OF keyboard_startup, of frozen_clock]
  have "run never_ending = None"
    by (simp add: never_ending_def)
  moreover have "\<exists>v0 v. startup timed_out = Inr (0, v0) \<and> after_loop timed_out = Some v
         \<and> calls v0 = setup_keyboard
         \<and> elapsed (polls timed_out 2) = 100
         \<and> calls v = setup_keyboard @
             [GetKeys False, GetTime 0, GetTrigger False,
              GetKeys False, GetTime 50, GetTrigger False,
              GetKeys False, GetTime 100]"
    using timed_out_loop
    by (simp add: timed_out_def keyboard_world_def startup_def MR_settings_def setup_calls_def
        wait_calls_def setup_keyboard_def py_int_defs idle_def)
  moreover have "\<exists>v0 v. startup early_escape = Inr (0, v0) \<and> after_loop early_escape = Some v
         \<and> calls v0 = setup_keyboard
         \<and> escape (polls early_escape 1)
         \<and> calls v = setup_keyboard @
             [GetKeys False, GetTime 1,
              LoggingFlush, SetText 0 5 0 0, Draw stimTrigger, WinFlip, GetTrigger False,
              GetKeys True]"
    using early_escape_loop keyboard_startup [of "script [idle 1 5 0]"]
    by (simp add: early_escape_def) (simp add: world_defs)
  ultimately show ?thesis by blast
qed

subsection \<open>C5: the statistics after the loop\<close>

text \<open>
  C5.  After the loop the script is to log the mean, the standard deviation, the maximum
  and the minimum of the deltas and to plot their histogram.  In the run below (the escape
  key is pressed before a second trigger) it does not: the sliced array is empty, the mean
  and the standard deviation are \<open>nan\<close>, and \<open>delta.max()\<close> raises \<open>ValueError\<close>, which
  ends the run before the maximum, the minimum and the histogram.
\<close>

theorem early_escape_run:
  "run early_escape =
     Some (setup_keyboard @
           [GetKeys False, GetTime 1,
            LoggingFlush, SetText 0 5 0 0, Draw stimTrigger, WinFlip, GetTrigger False,
            GetKeys True,
            LoggingData ''Mean deltaTime'' NaN, LoggingData ''Stdev deltaTime'' NaN],
           Uncaught (ValueError
             ''zero-size array to reduction operation maximum which has no identity''))"
  using run_after_loop [OF early_escape_loop] by (simp add: data_output_empty)

subsection \<open>C6: the device dispatch\<close>

text \<open>
  C6, as the code has it.  The dispatch is a lookup in a table of six rows (keyboard,
  dummy, serial, parallel, cedrus, launchscan), with \<open>ValueError\<close> for every other string.
\<close>

theorem device_dispatch_six_way:
  "MR_settings p n =
     (case map_of (lookup_table n) p of
        None \<Rightarrow> Inl (ValueError ''The selected Port type does not exist!'')
      | Some cfg \<Rightarrow> Inr cfg)
   \<and> map fst (lookup_table n) =
       [''keyboard'', ''dummy'', ''serial'', ''parallel'', ''cedrus'', ''launchscan'']
   \<and> distinct (map fst (lookup_table n))
   \<and> length (lookup_table n) = 6"
  by (simp add: MR_settings_def lookup_table_def)

text \<open>C6, as the specification states it, fails: six different device types are
  recognised, not five.\<close>

theorem five_way_lookup_counterexample:
  "length (remdups (filter recognised
      [''keyboard'', ''dummy'', ''serial'', ''parallel'', ''cedrus'', ''launchscan''])) = 6"
  by (simp add: recognised_def MR_settings_def)

subsection \<open>C7: the dialog\<close>

text \<open>
  C7.  Every run opens with the dialog over \<open>expInfo\<close>, and opens no other dialog.  The
  dictionary has two entries: \<open>triggering\<close>, a choice among keyboard, serial, parallel,
  cedrus, launchscan and dummy, and \<open>skip scans\<close>, a number.  The value the dialog leaves
  under \<open>skip scans\<close> goes through \<open>int\<close> before any use: when \<open>int\<close> raises, the run ends
  with that exception after the window and the stimuli, and no call has taken a skip
  count; when it returns \<open>n\<close>, every call that takes a skip count (\<open>waitForTrigger\<close>, the
  message on the screen, the launchscan settings) takes \<open>n\<close>.
\<close>

theorem dialog_fields:
  "(\<exists>rest. startup_calls w = DlgFromDict expInfo # rest \<and> filter is_dialog rest = [])
   \<and> map fst expInfo = [''triggering'', ''skip scans'']
   \<and> map_of expInfo ''triggering'' =
       Some (Choices [''keyboard'', ''serial'', ''parallel'', ''cedrus'', ''launchscan'', ''dummy''])
   \<and> map_of expInfo ''skip scans'' = Some (Number 0)
   \<and> (\<forall>cs out. run w = Some (cs, out) \<longrightarrow>
        (\<exists>rest. cs = DlgFromDict expInfo # rest \<and> filter is_dialog rest = [])
        \<and> (dlg_OK w \<longrightarrow>
             (case py_int (skip_value w) of
                Inl e \<Rightarrow> cs = setup_calls \<and> out = Uncaught e
                          \<and> (\<forall>c \<in> set cs. skip_used c = None)
              | Inr n \<Rightarrow> (\<forall>c \<in> set cs. skip_used c = None \<or> skip_used c = Some n))))
   \<and> (\<forall>n v. startup w = Inr (n, v) \<longrightarrow>
        py_int (skip_value w) = Inr n \<and> WaitForTrigger n \<in> set (calls v))
   \<and> (\<forall>n cfg. MR_settings ''launchscan'' n = Inr cfg \<longrightarrow>
        skip_used (TriggerCreate ''launchscan'' cfg) = Some n)
   \<and> py_int (PyInt m) = Inr m"
proof (intro conjI allI impI)
  show "\<exists>rest. startup_calls w = DlgFromDict expInfo # rest \<and> filter is_dialog rest = []"
    by (rule startup_calls_dialog)
next
  show "map fst expInfo = [''triggering'', ''skip scans'']"
    "map_of expInfo ''triggering'' =
       Some (Choices [''keyboard'', ''serial'', ''parallel'', ''cedrus'', ''launchscan'', ''dummy''])"
    "map_of expInfo ''skip scans'' = Some (Number 0)"
    by (simp_all add: expInfo_def)
next
  fix cs out
  assume r: "run w = Some (cs, out)"
  from startup_calls_dialog obtain rest0 where
    d: "startup_calls w = DlgFromDict expInfo # rest0" "filter is_dialog rest0 = []"
    by blast
  from run_calls [OF r] show "\<exists>rest. cs = DlgFromDict expInfo # rest \<and> filter is_dialog rest = []"
  proof
    assume "startup w = Inl (cs, out) \<and> cs = startup_calls w"
    with d show ?thesis by simp
  next
    assume "\<exists>n v0 post arr. startup w = Inr (n, v0)
           \<and> cs = startup_calls w @ post @ fst (data_output arr)
           \<and> list_all (loop_call n) post"
    then obtain n post arr where cs: "cs = startup_calls w @ post @ fst (data_output arr)"
      and post: "list_all (loop_call n) post"
      by blast
    have "filter is_dialog post = []"
      using post loop_call_facts by (auto simp: filter_empty_conv list_all_iff)
    moreover have "filter is_dialog (fst (data_output arr)) = []"
      using data_output_calls by (auto simp: filter_empty_conv)
    ultimately show ?thesis
      using d by (simp add: cs)
  qed
next
  fix cs out
  assume r: "run w = Some (cs, out)" and ok: "dlg_OK w"
  show "case py_int (skip_value w) of
          Inl e \<Rightarrow> cs = setup_calls \<and> out = Uncaught e \<and> (\<forall>c \<in> set cs. skip_used c = None)
        | Inr n \<Rightarrow> (\<forall>c \<in> set cs. skip_used c = None \<or> skip_used c = Some n)"
  proof (cases "py_int (skip_value w)")
    case (Inl e)
    then have "startup w = Inl (setup_calls, Uncaught e)"
      using ok by (simp add: startup_def skip_scans_def)
    with r have "cs = setup_calls" "out = Uncaught e"
      by (simp_all add: run_def)
    then show ?thesis
      by (simp add: Inl) (simp add: setup_calls_def)
  next
    case (Inr n)
    then have sk: "skip_scans w = Inr n"
      by (simp add: skip_scans_def)
    have "\<forall>c \<in> set cs. skip_used c = None \<or> skip_used c = Some n"
    proof
      fix c
      assume c: "c \<in> set cs"
      from run_calls [OF r] show "skip_used c = None \<or> skip_used c = Some n"
      proof
        assume "startup w = Inl (cs, out) \<and> cs = startup_calls w"
        with c startup_calls_skip [OF ok sk] show ?thesis by simp
      next
        assume "\<exists>n v0 post arr. startup w = Inr (n, v0)
           \<and> cs = startup_calls w @ post @ fst (data_output arr)
           \<and> list_all (loop_call n) post"
        then obtain m v0 post arr where s: "startup w = Inr (m, v0)"
          and cs: "cs = startup_calls w @ post @ fst (data_output arr)"
          and post: "list_all (loop_call m) post"
          by blast
        from startup_Inr [OF s] sk have "m = n" by auto
        from c cs consider "c \<in> set (startup_calls w)" | "c \<in> set post"
          | "c \<in> set (fst (data_output arr))"
          by auto
        then show ?thesis
        proof cases
          case 1
          then show ?thesis using startup_calls_skip [OF ok sk] by simp
        next
          case 2
          then show ?thesis
            using post loop_call_facts [of m c] \<open>m = n\<close> by (auto simp: list_all_iff)
        next
          case 3
          then show ?thesis using data_output_calls by simp
        qed
      qed
    qed
    then show ?thesis by (simp add: Inr)
  qed
next
  fix n v
  assume s: "startup w = Inr (n, v)"
  from startup_Inr [OF s] show "py_int (skip_value w) = Inr n"
    by (auto simp: skip_scans_def)
  from startup_Inr [OF s] show "WaitForTrigger n \<in> set (calls v)"
    by (auto simp: wait_calls_def)
next
  fix n cfg
  assume "MR_settings ''launchscan'' n = Inr cfg"
  then show "skip_used (TriggerCreate ''launchscan'' cfg) = Some n"
    by (auto simp: MR_settings_def)
next
  show "py_int (PyInt m) = Inr m"
    by (simp add: py_int_def)
qed

text \<open>
  The text \<open>two\<close> is no number: the run ends with the \<open>ValueError\<close> of \<open>int\<close>.  The text
  of a 4 between two blanks gives 4 to the launchscan settings, to \<open>waitForTrigger\<close> and
  to the message; the float 2.7 gives 2.
\<close>

theorem dialog_fields_witness:
  "run skip_not_a_number =
     Some (setup_calls,
           Uncaught (ValueError (''invalid literal for int() with base 10: ''
                                   @ [CHR 0x27] @ ''two'' @ [CHR 0x27])))
   \<and> py_int (skip_value launchscan_world) = Inr 4
   \<and> (\<exists>cs out. run launchscan_world = Some (cs, out)
         \<and> hd cs = DlgFromDict expInfo
         \<and> map skip_used (filter (\<lambda>c. skip_used c \<noteq> None) cs) = [Some 4, Some 4, Some 4]
         \<and> WaitForTrigger 4 \<in> set cs \<and> SetText 0 5 0 4 \<in> set cs)
   \<and> py_int (skip_value float_skip) = Inr 2
   \<and> (\<exists>cs out. run float_skip = Some (cs, out)
         \<and> map skip_used (filter (\<lambda>c. skip_used c \<noteq> None) cs) = [Some 2, Some 2]
         \<and> WaitForTrigger 2 \<in> set cs \<and> SetText 0 5 0 2 \<in> set cs)"
proof -
  have a: "run skip_not_a_number =
     Some (setup_calls,
           Uncaught (ValueError (''invalid literal for int() with base 10: ''
                                   @ [CHR 0x27] @ ''two'' @ [CHR 0x27])))"
    by (simp add: run_def startup_def skip_not_a_number_def keyboard_world_def py_int_defs)
  have b: "py_int (skip_value launchscan_world) = Inr 4"
    "py_int (skip_value float_skip) = Inr 2"
    by (simp_all add: launchscan_world_def float_skip_def keyboard_world_def py_int_defs)
  have c: "\<exists>cs out. run launchscan_world = Some (cs, out)
         \<and> hd cs = DlgFromDict expInfo
         \<and> map skip_used (filter (\<lambda>c. skip_used c \<noteq> None) cs) = [Some 4, Some 4, Some 4]
         \<and> WaitForTrigger 4 \<in> set cs \<and> SetText 0 5 0 4 \<in> set cs"
    by (simp add: run_def launchscan_world_def polling_loop.simps eval_defs data_output_empty)
  have d: "\<exists>cs out. run float_skip = Some (cs, out)
         \<and> map skip_used (filter (\<lambda>c. skip_used c \<noteq> None) cs) = [Some 2, Some 2]
         \<and> WaitForTrigger 2 \<in> set cs \<and> SetText 0 5 0 2 \<in> set cs"
    by (simp add: run_def float_skip_def polling_loop.simps eval_defs data_output_empty)
  show ?thesis
    using a b c d dialog_fields [of skip_not_a_number 0] dialog_fields [of launchscan_world 0]
    by simp
qed

subsection \<open>C8: the first entry, the slice and the bins\<close>

text \<open>
  C8.  When \<open>waitForTrigger\<close> returned true and the body of the loop ran at least once,
  the delta array starts with 0.  The statistics and the histogram are computed from the
  rest of the array (the array without its first entry), and the number of bins is
  \<open>ceil(4 * n ** (1/3))\<close> for the length \<open>n\<close> of the whole array.
\<close>

theorem first_delta_zero_and_slice:
  assumes "after_loop w = Some v" and "waitForTrigger w = Inr True"
    and "\<not> escape (polls w 0)" and "elapsed (polls w 0) < 100"
  shows "\<exists>rest. deltaTriggerTimeArray v = 0 # rest
     \<and> (rest \<noteq> [] \<longrightarrow>
          run w = Some (calls v @
            [LoggingData ''Mean deltaTime'' (np_mean rest),
             LoggingData ''Stdev deltaTime'' (np_std rest),
             LoggingData ''Max deltaTime'' (Num (Max (set rest))),
             LoggingData ''Min deltaTime'' (Num (Min (set rest))),
             LoggingFlush, PltFigure,
             PltHist rest \<lceil>4 * root 3 (real (length (deltaTriggerTimeArray v)))\<rceil>,
             PltTitle (np_mean rest) (np_std rest),
             PltXlabel ''delta time'', PltYlabel ''frequency'', PltShow,
             TriggerClose, WinClose, CoreQuit], Exited))"
proof -
  from assms(1) obtain n v0 k where s: "startup w = Inr (n, v0)"
    and k: "first_stop (polls w) k"
    and v: "v = checked (polls w k) (iterations (polls w) n 0 k v0)"
    using after_loop_Some by blast
  from startup_Inr [OF s] assms(2) have
    v0: "triggered v0" "deltaTriggerTimeArray v0 = []" "prevTriggerTime v0 = triggerTime (st v0)"
    by auto
  from assms(3,4) have "\<not> stops (polls w 0)"
    by (simp add: stops_def)
  have "k \<noteq> 0"
  proof
    assume "k = 0"
    with k have "stops (polls w 0)"
      by (simp add: first_stop_iff)
    with \<open>\<not> stops (polls w 0)\<close> show False by simp
  qed
  then obtain m where "k = Suc m"
    by (cases k) auto
  with iterations_first_zero [OF v0, of "polls w" n m] v
  obtain rest where rest: "deltaTriggerTimeArray v = 0 # rest"
    by auto
  show ?thesis
    using rest run_after_loop [OF assms(1)] data_output_slice [of rest 0]
    by (auto simp: binWidth_def)
qed

text \<open>
  With triggers at 5, 7, 9 and 11 the array is 0, 2, 2, 2.  The statistics are those of
  2, 2, 2, and the histogram has the 7 bins of four entries, not the 6 bins of three.
\<close>

theorem first_delta_zero_and_slice_witness:
  "\<exists>v. after_loop four_triggers = Some v \<and> waitForTrigger four_triggers = Inr True
     \<and> \<not> escape (polls four_triggers 0) \<and> elapsed (polls four_triggers 0) < 100
     \<and> deltaTriggerTimeArray v = [0, 2, 2, 2]
     \<and> \<lceil>4 * root 3 (real (length [0, 2, 2, 2 :: real]))\<rceil> = (7 :: int)
     \<and> \<lceil>4 * root 3 (real (length [2, 2, 2 :: real]))\<rceil> = (6 :: int)
     \<and> run four_triggers =
         Some (calls v @
            [LoggingData ''Mean deltaTime'' (Num 2),
             LoggingData ''Stdev deltaTime'' (Num 0),
             LoggingData ''Max deltaTime'' (Num 2),
             LoggingData ''Min deltaTime'' (Num 2),
             LoggingFlush, PltFigure,
             PltHist [2, 2, 2] 7,
             PltTitle (Num 2) (Num 0),
             PltXlabel ''delta time'', PltYlabel ''frequency'', PltShow,
             TriggerClose, WinClose, CoreQuit], Exited)"
proof -
  have w: "waitForTrigger four_triggers = Inr True"
    "\<not> escape (polls four_triggers 0)" "elapsed (polls four_triggers 0) < 100"
    by (simp_all add: four_triggers_def world_defs)
  have stats: "np_mean [2, 2, 2] = Num 2" "np_std [2, 2, 2] = Num 0"
    by (simp_all add: np_mean_def np_std_def)
  have bins: "\<lceil>4 * root 3 (real (length [0, 2, 2, 2 :: real]))\<rceil> = (7 :: int)"
    "\<lceil>4 * root 3 (real (length [2, 2, 2 :: real]))\<rceil> = (6 :: int)"
    using binWidth_4 binWidth_3 by (simp_all add: binWidth_def)
  from first_delta_zero_and_slice [OF four_triggers_loop w]
  have "run four_triggers =
         Some (setup_keyboard @
             [GetKeys False, GetTime 2,
              LoggingFlush, SetText 0 5 0 0, Draw stimTrigger, WinFlip, GetTrigger True,
              GetKeys False, GetTime 4,
              LoggingFlush, SetText 1 7 2 0, Draw stimTrigger, WinFlip, GetTrigger True,
              GetKeys False, GetTime 6,
              LoggingFlush, SetText 2 9 2 0, Draw stimTrigger, WinFlip, GetTrigger True,
              GetKeys False, GetTime 7,
              LoggingFlush, SetText 3 11 2 0, Draw stimTrigger, WinFlip, GetTrigger False,
              GetKeys True] @
            [LoggingData ''Mean deltaTime'' (Num 2),
             LoggingData ''Stdev deltaTime'' (Num 0),
             LoggingData ''Max deltaTime'' (Num 2),
             LoggingData ''Min deltaTime'' (Num 2),
             LoggingFlush, PltFigure,
             PltHist [2, 2, 2] 7,
             PltTitle (Num 2) (Num 0),
             PltXlabel ''delta time'', PltYlabel ''frequency'', PltShow,
             TriggerClose, WinClose, CoreQuit], Exited)"
    using bins(1) by (simp add: stats)
  with four_triggers_loop w bins show ?thesis
    by simp
qed

subsection \<open>C9: fewer than two entries\<close>

text \<open>
  C9.  When the loop ends with fewer than two entries in the delta array, the sliced
  array is empty: the mean and the standard deviation are logged as \<open>nan\<close>, then
  \<open>delta.max()\<close> raises \<open>ValueError\<close>.  Nothing catches it, so the run ends there: the
  maximum and the minimum are not logged, the log is not flushed, and no histogram is made.
\<close>

theorem too_few_deltas_fails:
  assumes "after_loop w = Some v" and "length (deltaTriggerTimeArray v) < 2"
  shows "run w =
    Some (calls v @ [LoggingData ''Mean deltaTime'' NaN, LoggingData ''Stdev deltaTime'' NaN],
          Uncaught (ValueError
            ''zero-size array to reduction operation maximum which has no identity''))"
  using run_after_loop [OF assms(1)] data_output_empty [OF assms(2)] by simp

text \<open>No trigger arrives and the clock runs out: the array is empty.\<close>

theorem too_few_deltas_fails_witness:
  "\<exists>v. after_loop timed_out = Some v \<and> length (deltaTriggerTimeArray v) = 0
     \<and> run timed_out =
         Some (setup_keyboard @
               [GetKeys False, GetTime 0, GetTrigger False,
                GetKeys False, GetTime 50, GetTrigger False,
                GetKeys False, GetTime 100,
                LoggingData ''Mean deltaTime'' NaN, LoggingData ''Stdev deltaTime'' NaN],
               Uncaught (ValueError
                 ''zero-size array to reduction operation maximum which has no identity''))"
  using too_few_deltas_fails [OF timed_out_loop] timed_out_loop by simp

subsection \<open>C10: the cancelled dialog\<close>

text \<open>
  C10.  When the user cancels the dialog (\<open>dlg.OK\<close> is \<open>False\<close>), the script calls
  \<open>core.quit()\<close> at once: the dialog and the quit are its only calls, so no window, no
  device settings and no trigger object are made.
\<close>

theorem cancelled_dialog_quits:
  "\<not> dlg_OK w \<Longrightarrow> run w = Some ([DlgFromDict expInfo, CoreQuit], Exited)"
  by (simp add: run_def startup_def)

theorem cancelled_dialog_quits_witness:
  "\<not> dlg_OK cancelled \<and> run cancelled = Some ([DlgFromDict expInfo, CoreQuit], Exited)"
proof -
  have h: "\<not> dlg_OK cancelled"
    by (simp add: cancelled_def keyboard_world_def)
  show ?thesis
    using h cancelled_dialog_quits [OF h] by simp
qed

end
